theory Spec2Isabelle
  imports Complex_Main
begin

section \<open>Python values and errors\<close>

text \<open>
  The two entry points are Python 3 scripts (\<^verbatim>\<open>src/cifar10/capsnet.py\<close> and
  \<^verbatim>\<open>src/symmetric_forms/main.py\<close>).  Exceptions are values of \<open>py_error\<close>; a function
  that can raise returns \<open>py_error + 'a\<close> with \<open>Inl\<close> for the exception.
\<close>

datatype py_error = IndexError | ValueError | ZeroDivisionError | OSError | LibraryError

text \<open>An image is a height x width x channel array of floats, idealised as reals.\<close>

type_synonym image = "real list list list"

text \<open>
  \<^verbatim>\<open>np.argmax\<close> on a one-dimensional array: the first index holding the maximum;
  an empty array raises ValueError.
\<close>

fun argmax_from :: "real \<Rightarrow> nat \<Rightarrow> nat \<Rightarrow> real list \<Rightarrow> nat" where
  "argmax_from best bi i [] = bi"
| "argmax_from best bi i (x # xs) =
     (if best < x then argmax_from x i (Suc i) xs else argmax_from best bi (Suc i) xs)"

definition np_argmax :: "real list \<Rightarrow> py_error + nat" where
  "np_argmax xs = (case xs of [] \<Rightarrow> Inl ValueError | x # r \<Rightarrow> Inr (argmax_from x 0 1 r))"

text \<open>
  A Python float, as the expression that computes it: the true division \<^verbatim>\<open>a / b\<close> of two
  non-negative ints, and the product \<^verbatim>\<open>x * k\<close> of a float and a non-negative int.  Each
  operation yields the exact result rounded to a double: \<open>float_value rnd\<close> is the value
  under the rounding function \<open>rnd\<close>, \<open>exact_value\<close> the value without rounding.
\<close>

datatype py_float = TrueDiv nat nat | Times py_float nat

fun float_value :: "(real \<Rightarrow> real) \<Rightarrow> py_float \<Rightarrow> real" where
  "float_value rnd (TrueDiv a b) = rnd (real a / real b)"
| "float_value rnd (Times x k) = rnd (float_value rnd x * real k)"

fun exact_value :: "py_float \<Rightarrow> real" where
  "exact_value (TrueDiv a b) = real a / real b"
| "exact_value (Times x k) = exact_value x * real k"

text \<open>Python 3 true division \<^verbatim>\<open>a / b\<close> of two non-negative ints.\<close>

definition py_truediv :: "nat \<Rightarrow> nat \<Rightarrow> py_error + py_float" where
  "py_truediv a b = (if b = 0 then Inl ZeroDivisionError else Inr (TrueDiv a b))"

section \<open>The adversarial attack driver (capsnet.py, adversarial\_attack)\<close>

text \<open>
  The collaborators of the driver are parameters: \<open>fool_model\<close> is
  \<^verbatim>\<open>fool_model.predict(np.array([x]))\<close> (the vector of capsule lengths of one image),
  \<open>attack\<close> is the foolbox FGSM attack at the fixed \<^verbatim>\<open>epsilon\<close>, which returns an
  adversarial image or \<^verbatim>\<open>None\<close>; \<open>x_test\<close> and \<open>y_test\<close> are the test images and
  their one-hot label rows.
\<close>

record attack_env =
  fool_model :: "image \<Rightarrow> real list"
  attack :: "image \<Rightarrow> nat \<Rightarrow> image option"
  x_test :: "image list"
  y_test :: "real list list"

text \<open>
  The local variables that survive an iteration: the two counters, the \<^verbatim>\<open>debug\<close>
  flag (cleared after the first image shown) and the number of images shown.
\<close>

record attack_state =
  num_attacks :: nat
  num_success_attacks :: nat
  debug :: bool
  num_shown :: nat

text \<open>\<^verbatim>\<open>x_adversarial[:, :, ::-1]\<close>: reverse the channel axis.\<close>

definition bgr_to_rgb :: "image \<Rightarrow> image" where
  "bgr_to_rgb x = map (map rev) x"

text \<open>
  One iteration of \<^verbatim>\<open>for test_id in range(max_num_attacks)\<close>.  Each \<^verbatim>\<open>continue\<close>
  returns the state reached so far.  The difference image is computed for display only;
  the attack returns an image of the shape of its input, on which that computation does
  not raise, and it is left out.
\<close>

definition attack_body :: "attack_env \<Rightarrow> attack_state \<Rightarrow> nat \<Rightarrow> py_error + attack_state" where
  "attack_body env st test_id =
     (if length (x_test env) \<le> test_id \<or> length (y_test env) \<le> test_id then Inl IndexError
      else
        let x_true = x_test env ! test_id in
        case np_argmax (y_test env ! test_id) of
          Inl e \<Rightarrow> Inl e
        | Inr y_true \<Rightarrow>
            (case np_argmax (fool_model env x_true) of
               Inl e \<Rightarrow> Inl e
             | Inr y_prediction \<Rightarrow>
                 if y_prediction \<noteq> y_true then Inr st
                 else
                   let x_adversarial = attack env x_true y_true;
                       st1 = st\<lparr>num_attacks := num_attacks st + 1\<rparr>
                   in (case x_adversarial of
                         None \<Rightarrow> Inr st1
                       | Some x_adv \<Rightarrow>
                           (case np_argmax (fool_model env (bgr_to_rgb x_adv)) of
                              Inl e \<Rightarrow> Inl e
                            | Inr y_adversarial \<Rightarrow>
                                let st2 = (if y_adversarial \<noteq> y_true
                                           then st1\<lparr>num_success_attacks := num_success_attacks st1 + 1\<rparr>
                                           else st1)
                                in Inr (if debug st2
                                        then st2\<lparr>debug := False, num_shown := num_shown st2 + 1\<rparr>
                                        else st2)))))"

fun attack_loop :: "attack_env \<Rightarrow> nat list \<Rightarrow> attack_state \<Rightarrow> py_error + attack_state" where
  "attack_loop env [] st = Inr st"
| "attack_loop env (test_id # ids) st =
     (case attack_body env st test_id of
        Inl e \<Rightarrow> Inl e
      | Inr st' \<Rightarrow> attack_loop env ids st')"

definition attack_init :: "bool \<Rightarrow> attack_state" where
  "attack_init dbg = \<lparr>num_attacks = 0, num_success_attacks = 0, debug = dbg, num_shown = 0\<rparr>"

text \<open>
  The lines printed after the loop; the last one is
  \<^verbatim>\<open>str(num_success_attacks / num_attacks * 100)\<close>.
\<close>

datatype report_line =
    WarnNoAttack
  | Rule
  | NumAttacksLine nat
  | NumSuccessLine nat
  | SuccessRateLine py_float

definition print_results :: "attack_state \<Rightarrow> py_error + report_line list" where
  "print_results st =
     (if num_attacks st = 0 then Inr [WarnNoAttack]
      else
        case py_truediv (num_success_attacks st) (num_attacks st) of
          Inl e \<Rightarrow> Inl e
        | Inr q \<Rightarrow> Inr [Rule, NumAttacksLine (num_attacks st),
                        NumSuccessLine (num_success_attacks st), SuccessRateLine (Times q 100)])"

definition adversarial_attack ::
  "attack_env \<Rightarrow> nat \<Rightarrow> bool \<Rightarrow> py_error + (attack_state \<times> report_line list)" where
  "adversarial_attack env max_num_attacks dbg =
     (case attack_loop env [0..<max_num_attacks] (attack_init dbg) of
        Inl e \<Rightarrow> Inl e
      | Inr st \<Rightarrow>
          (case print_results st of
             Inl e \<Rightarrow> Inl e
           | Inr out \<Rightarrow> Inr (st, out)))"

subsection \<open>The bookkeeping contract, in the words of the specification\<close>

definition true_label :: "attack_env \<Rightarrow> nat \<Rightarrow> py_error + nat" where
  "true_label env i = np_argmax (y_test env ! i)"

definition predicted :: "attack_env \<Rightarrow> image \<Rightarrow> py_error + nat" where
  "predicted env x = np_argmax (fool_model env x)"

text \<open>A sample is eligible when the unperturbed prediction equals the true label.\<close>

definition eligible :: "attack_env \<Rightarrow> nat \<Rightarrow> bool" where
  "eligible env i \<longleftrightarrow> predicted env (x_test env ! i) = true_label env i"


text \<open>
  The same for the image the attack yields with the order of the channels of every
  pixel reversed.
\<close>

definition reversed_fools :: "attack_env \<Rightarrow> nat \<Rightarrow> bool" where
  "reversed_fools env i \<longleftrightarrow>
     (case true_label env i of
        Inl e \<Rightarrow> False
      | Inr y \<Rightarrow>
          (case attack env (x_test env ! i) y of
             None \<Rightarrow> False
           | Some x_adv \<Rightarrow> predicted env (map (\<lambda>row. map (\<lambda>pixel. rev pixel) row) x_adv) \<noteq> Inr y))"


section \<open>Loading CIFAR-10 (capsnet.py, load\_dataset)\<close>

text \<open>
  What \<^verbatim>\<open>cifar10.load_data()\<close> hands over: a four-dimensional array of bytes
  (images x rows x columns x channels) and integer labels, for each of the two splits.
\<close>

record raw_dataset =
  train_images :: "nat list list list list"
  train_labels :: "nat list"
  test_images :: "nat list list list list"
  test_labels :: "nat list"

text \<open>
  \<^verbatim>\<open>x.reshape(-1, h, w, c)\<close>: the elements in row-major order, regrouped into
  images of \<open>h\<close> rows of \<open>w\<close> pixels of \<open>c\<close> channels; ValueError when their number
  is not a multiple of \<open>h * w * c\<close>.
\<close>

fun chunks :: "nat \<Rightarrow> 'a list \<Rightarrow> 'a list list" where
  "chunks n [] = []"
| "chunks n (x # xs) =
     (if n = 0 then [] else take n (x # xs) # chunks n (drop n (x # xs)))"

definition flat_pixels :: "nat list list list list \<Rightarrow> nat list" where
  "flat_pixels xs = concat (concat (concat xs))"

definition regroup :: "nat \<Rightarrow> nat \<Rightarrow> nat \<Rightarrow> nat list \<Rightarrow> nat list list list list" where
  "regroup h w c flat = chunks h (chunks w (chunks c flat))"

definition np_reshape ::
  "nat \<Rightarrow> nat \<Rightarrow> nat \<Rightarrow> nat list list list list \<Rightarrow> py_error + nat list list list list" where
  "np_reshape h w c xs =
     (if length (flat_pixels xs) mod (h * w * c) \<noteq> 0 then Inl ValueError
      else Inr (regroup h w c (flat_pixels xs)))"

text \<open>\<^verbatim>\<open>x.astype('float32') / 255\<close>, on reals.\<close>

definition scale_pixels :: "nat list list list list \<Rightarrow> image list" where
  "scale_pixels xs = map (map (map (map (\<lambda>p. real p / 255)))) xs"

definition one_hot :: "nat \<Rightarrow> nat \<Rightarrow> real list" where
  "one_hot n l = map (\<lambda>j. if j = l then 1 else 0) [0..<n]"

text \<open>
  \<^verbatim>\<open>keras.utils.to_categorical(y, num_classes)\<close>: a row of \<open>num_classes\<close> zeros per
  label with a one at the label's index; a label outside the row raises IndexError.
  A missing or zero \<open>num_classes\<close> is replaced by the largest label plus one, which
  needs a non-empty \<open>y\<close>.
\<close>

definition to_categorical :: "nat list \<Rightarrow> nat option \<Rightarrow> py_error + real list list" where
  "to_categorical y num_classes =
     (if num_classes = None \<or> num_classes = Some 0
      then (if y = [] then Inl ValueError else Inr (map (one_hot (fold max y 0 + 1)) y))
      else
        let n = the num_classes
        in if \<exists>l\<in>set y. n \<le> l then Inl IndexError else Inr (map (one_hot n) y))"

definition none_of_the_above_class :: nat where
  "none_of_the_above_class = 1"

definition capsnet_out_dim :: nat where
  "capsnet_out_dim = 42"

definition load_dataset ::
  "nat \<Rightarrow> raw_dataset \<Rightarrow>
     py_error + ((image list \<times> real list list) \<times> (image list \<times> real list list) \<times> nat)" where
  "load_dataset with_non_of_the_above_class raw =
     (case np_reshape 32 32 3 (train_images raw) of
        Inl e \<Rightarrow> Inl e
      | Inr train_px \<Rightarrow>
          (case np_reshape 32 32 3 (test_images raw) of
             Inl e \<Rightarrow> Inl e
           | Inr test_px \<Rightarrow>
               let x_train = scale_pixels train_px;
                   x_test' = scale_pixels test_px;
                   n_class = 10 + with_non_of_the_above_class
               in case to_categorical (train_labels raw) (Some n_class) of
                    Inl e \<Rightarrow> Inl e
                  | Inr y_train \<Rightarrow>
                      (case to_categorical (test_labels raw) (Some n_class) of
                         Inl e \<Rightarrow> Inl e
                       | Inr y_test' \<Rightarrow>
                           Inr ((x_train, y_train), (x_test', y_test'), n_class))))"

section \<open>The command line and the two entry points\<close>

text \<open>
  The namespace returned by \<^verbatim>\<open>parser.parse_args()\<close>.  A field has the type its
  \<^verbatim>\<open>add_argument\<close> converts to: \<^verbatim>\<open>type=int\<close> admits every integer, an option
  with default \<^verbatim>\<open>None\<close> is optional.  The record is the union of the two parsers:
  \<open>crop_x\<close>, \<open>crop_y\<close> and \<open>fool\<close> exist in capsnet.py only, \<open>digit\<close> in
  symmetric\_forms/main.py only, and each entry point reads its own fields only.
\<close>

record args =
  epochs :: int
  batch_size :: int
  max_num_samples :: "int option"
  lr :: real
  lr_decay :: real
  scale_reconstruction_loss :: real
  num_routing :: int
  shift_fraction :: real
  crop_x :: "int option"
  crop_y :: "int option"
  debug_weights :: bool
  save_dir :: string
  testing :: bool
  fool :: bool
  rotation_range :: real
  manipulate :: int
  digit :: int
  weights :: "string option"

text \<open>The namespace of capsnet.py when no option is given.\<close>

definition cifar10_defaults :: args where
  "cifar10_defaults =
     \<lparr>epochs = 100, batch_size = 64, max_num_samples = None, lr = 1 / 1000, lr_decay = 9 / 10,
      scale_reconstruction_loss = 5 / 10000, num_routing = 3, shift_fraction = 1 / 10,
      crop_x = None, crop_y = None, debug_weights = False, save_dir = ''./result-capsnet'',
      testing = False, fool = False, rotation_range = 0, manipulate = 5, digit = 0,
      weights = None\<rparr>"

text \<open>The namespace of symmetric\_forms/main.py when no option is given.\<close>

definition symmetric_defaults :: args where
  "symmetric_defaults =
     \<lparr>epochs = 50, batch_size = 32, max_num_samples = None, lr = 1 / 1000, lr_decay = 9 / 10,
      scale_reconstruction_loss = 1, num_routing = 3, shift_fraction = 1 / 10,
      crop_x = None, crop_y = None, debug_weights = False, save_dir = ''./result-capsnet'',
      testing = False, fool = False, rotation_range = 0, manipulate = 0, digit = 5,
      weights = None\<rparr>"

text \<open>
  \<^verbatim>\<open>loss_weights=[1., args.scale_reconstruction_loss]\<close> in both \<^verbatim>\<open>train\<close>
  functions, and the loss Keras minimises for the two outputs.
\<close>

definition loss_weights :: "args \<Rightarrow> real list" where
  "loss_weights a = [1, scale_reconstruction_loss a]"

definition total_loss :: "args \<Rightarrow> real \<Rightarrow> real \<Rightarrow> real" where
  "total_loss a margin reconstruction =
     loss_weights a ! 0 * margin + loss_weights a ! 1 * reconstruction"

text \<open>The effects of a run, in the order they happen.\<close>

datatype message =
    NumTrainingSamples nat
  | NumTestingSamples nat
  | LoadedTrainingExamples nat
  | LoadedTestExamples nat
  | UsingOnly nat
  | LoadedWeights string
  | WarnNoWeights
  | BannerTest
  | BannerFool
  | BannerTrain
  | BannerEnd
  | AttackReport report_line

datatype shape = FullShape "nat list" | CropShape int int "nat list"

datatype content = ArgsDump args | Picture

datatype event =
    MakeDirs string
  | WriteFile string content
  | SetLearningPhase nat
  | Print message
  | CreateCapsnet shape nat nat int
  | ModelSummary
  | LoadWeights string
  | RunTest
  | RunManipulate
  | RunAttack
  | RunTrain
  | ShowPrimaryLayer

text \<open>
  What a run finds outside the program.  The two answers of \<^verbatim>\<open>os.path.exists\<close> (for
  \<^verbatim>\<open>args.save_dir\<close> at the start, and for \<^verbatim>\<open>args.weights\<close> when it is asked) and the
  data set.  The exception, if any, raised by \<^verbatim>\<open>os.makedirs\<close>, by opening the arguments
  file, by \<^verbatim>\<open>create_capsnet\<close> (Keras and the module \<^verbatim>\<open>capsule\<close>, for the arguments
  of the call), by \<^verbatim>\<open>load_weights\<close>, by \<^verbatim>\<open>test\<close>, \<^verbatim>\<open>manipulate_latent\<close>,
  \<^verbatim>\<open>train\<close> and \<^verbatim>\<open>show_primary_layer_per_position\<close>.  For \<^verbatim>\<open>test\<close>, whether it
  got as far as saving the composite image and the misclassified samples it saved after
  it.  The prediction of the model built for the attack, and the attack.
\<close>

record run_env =
  save_dir_exists :: bool
  makedirs_error :: "py_error option"
  open_error :: "py_error option"
  weights_exists :: bool
  raw :: raw_dataset
  create_error :: "shape \<Rightarrow> nat \<Rightarrow> nat \<Rightarrow> int \<Rightarrow> py_error option"
  load_weights_error :: "py_error option"
  test_saved :: "nat list option"
  test_error :: "py_error option"
  manipulate_error :: "py_error option"
  train_error :: "py_error option"
  show_error :: "py_error option"
  predict :: "image \<Rightarrow> real list"
  fgsm :: "image \<Rightarrow> nat \<Rightarrow> image option"

text \<open>
  A step of a run: the effects it has and the exception it raises, if any.  A run of
  several steps ends at the first exception.
\<close>

type_synonym run = "event list \<times> py_error option"

fun run_steps :: "run list \<Rightarrow> run" where
  "run_steps [] = ([], None)"
| "run_steps ((evs, Some e) # steps) = (evs, Some e)"
| "run_steps ((evs, None) # steps) = (evs @ fst (run_steps steps), snd (run_steps steps))"

text \<open>Python's \<^verbatim>\<open>xs[:n]\<close>; a negative \<open>n\<close> counts from the end.\<close>

definition py_take :: "int \<Rightarrow> 'a list \<Rightarrow> 'a list" where
  "py_take n xs = (if 0 \<le> n then take (nat n) xs else take (length xs - nat (- n)) xs)"

text \<open>\<^verbatim>\<open>"%d" % n\<close>.\<close>

fun decimal :: "nat \<Rightarrow> string" where
  "decimal n =
     (if n < 10 then [char_of (48 + n)]
      else decimal (n div 10) @ [char_of (48 + n mod 10)])"

definition decimal_int :: "int \<Rightarrow> string" where
  "decimal_int n = (if n < 0 then CHR ''-'' # decimal (nat (- n)) else decimal (nat n))"

text \<open>
  The files \<^verbatim>\<open>test\<close> of capsnet.py saves, for the misclassified samples \<open>wrong\<close>,
  and the file \<^verbatim>\<open>manipulate_latent\<close> saves as its last step.
\<close>

definition test_writes :: "args \<Rightarrow> nat list \<Rightarrow> event list" where
  "test_writes a wrong =
     WriteFile (save_dir a @ ''/real_and_recon.png'') Picture
     # map (\<lambda>i. WriteFile (save_dir a @ ''/wrongly_classified_'' @ decimal i @ ''.png'') Picture)
         wrong"

definition manipulate_writes :: "args \<Rightarrow> event list" where
  "manipulate_writes a =
     [WriteFile (save_dir a @ ''/manipulate-'' @ decimal_int (manipulate a) @ ''.png'') Picture]"

text \<open>The steps the two entry points share, and the stages of capsnet.py.\<close>

definition make_dir :: "run_env \<Rightarrow> args \<Rightarrow> run" where
  "make_dir env a =
     (if save_dir_exists env then ([], None)
      else ([MakeDirs (save_dir a)], makedirs_error env))"

definition save_args :: "run_env \<Rightarrow> args \<Rightarrow> run" where
  "save_args env a =
     (if testing a then ([], None)
      else if open_error env = None
      then ([WriteFile (save_dir a @ ''/args.txt'') (ArgsDump a)], None)
      else ([], open_error env))"

definition create_model :: "run_env \<Rightarrow> shape \<Rightarrow> nat \<Rightarrow> nat \<Rightarrow> int \<Rightarrow> run" where
  "create_model env shape n_class out_dim n_routing =
     ([CreateCapsnet shape n_class out_dim n_routing],
      create_error env shape n_class out_dim n_routing)"

definition load_weights :: "run_env \<Rightarrow> args \<Rightarrow> event list \<Rightarrow> run" where
  "load_weights env a otherwise =
     (if weights a \<noteq> None \<and> weights_exists env
      then (if load_weights_error env = None
            then ([LoadWeights (the (weights a)), Print (LoadedWeights (the (weights a)))], None)
            else ([LoadWeights (the (weights a))], load_weights_error env))
      else (otherwise, None))"

definition test_stage :: "run_env \<Rightarrow> args \<Rightarrow> run" where
  "test_stage env a =
     (RunTest # (case test_saved env of None \<Rightarrow> [] | Some wrong \<Rightarrow> test_writes a wrong),
      test_error env)"

definition manipulate_stage :: "run_env \<Rightarrow> args \<Rightarrow> run" where
  "manipulate_stage env a =
     (RunManipulate # (if manipulate_error env = None then manipulate_writes a else []),
      manipulate_error env)"

definition fool_stage :: "run_env \<Rightarrow> image list \<Rightarrow> real list list \<Rightarrow> run" where
  "fool_stage env xs ys =
     (case adversarial_attack
             \<lparr>fool_model = predict env, attack = fgsm env, x_test = xs, y_test = ys\<rparr>
             500 False of
        Inl e \<Rightarrow> ([RunAttack], Some e)
      | Inr (st, out) \<Rightarrow> (RunAttack # map (\<lambda>l. Print (AttackReport l)) out, None))"

definition train_stage :: "run_env \<Rightarrow> run" where
  "train_stage env = ([RunTrain], train_error env)"

text \<open>
  \<^verbatim>\<open>main\<close> of capsnet.py.  The result is the trace of effects and the exception that
  ended the run, if any.  What \<^verbatim>\<open>train\<close> and the Keras callbacks save is inside
  \<open>RunTrain\<close>.
\<close>

definition main_cifar10 :: "run_env \<Rightarrow> args \<Rightarrow> run" where
  "main_cifar10 env a =
     run_steps
       [make_dir env a,
        save_args env a,
        (if testing a \<or> fool a then [SetLearningPhase 0] else [], None),
        (case load_dataset none_of_the_above_class (raw env) of
           Inl e \<Rightarrow> ([], Some e)
         | Inr ((x_train, y_train), (x_test', y_test'), n_class) \<Rightarrow>
             let x_train' = (case max_num_samples a of
                               None \<Rightarrow> x_train | Some n \<Rightarrow> py_take n x_train);
                 shape = (if crop_x a \<noteq> None \<and> crop_y a \<noteq> None
                          then CropShape (the (crop_x a)) (the (crop_y a)) [32, 32]
                          else FullShape [32, 32, 3])
             in run_steps
                  [([Print (NumTrainingSamples (length x_train)),
                     Print (NumTestingSamples (length x_test'))], None),
                   (case max_num_samples a of
                      None \<Rightarrow> [] | Some n \<Rightarrow> [Print (UsingOnly (length x_train'))], None),
                   create_model env shape n_class capsnet_out_dim (num_routing a),
                   ([ModelSummary], None),
                   load_weights env a [Print WarnNoWeights],
                   (if testing a
                    then run_steps [([Print BannerTest], None), test_stage env a,
                                    manipulate_stage env a]
                    else if fool a
                    then run_steps [([Print BannerFool], None), fool_stage env x_test' y_test']
                    else run_steps [([Print BannerTrain], None), train_stage env]),
                   ([Print BannerEnd], None)])]"

text \<open>
  \<^verbatim>\<open>load_dataset\<close> of symmetric\_forms/main.py; \<open>r\<close> is what
  \<^verbatim>\<open>symmetric_dataset.load_data\<close> returns for \<^verbatim>\<open>WIDTH = HEIGHT = 28\<close>.
\<close>

definition load_dataset_symmetric ::
  "raw_dataset \<Rightarrow>
     event list \<times> (py_error + ((image list \<times> real list list) \<times> (image list \<times> real list list)))" where
  "load_dataset_symmetric r =
     (let ev = [Print (LoadedTrainingExamples (length (train_images r))),
                Print (LoadedTestExamples (length (test_images r)))]
      in case np_reshape 28 28 3 (train_images r) of
           Inl e \<Rightarrow> (ev, Inl e)
         | Inr train_px \<Rightarrow>
             (case np_reshape 28 28 3 (test_images r) of
                Inl e \<Rightarrow> (ev, Inl e)
              | Inr test_px \<Rightarrow>
                  let x_train = scale_pixels train_px;
                      x_test' = scale_pixels test_px
                  in case to_categorical (train_labels r) None of
                       Inl e \<Rightarrow> (ev, Inl e)
                     | Inr y_train \<Rightarrow>
                         (case to_categorical (test_labels r) None of
                            Inl e \<Rightarrow> (ev, Inl e)
                          | Inr y_test' \<Rightarrow>
                              (ev, Inr ((x_train, y_train), (x_test', y_test'))))))"

text \<open>\<^verbatim>\<open>np.argmax(y, 1)\<close>: the row-wise argmax; it raises where a row does.\<close>

fun argmax_rows :: "real list list \<Rightarrow> py_error + nat list" where
  "argmax_rows [] = Inr []"
| "argmax_rows (r # rs) =
     (case np_argmax r of
        Inl e \<Rightarrow> Inl e
      | Inr k \<Rightarrow> (case argmax_rows rs of Inl e \<Rightarrow> Inl e | Inr ks \<Rightarrow> Inr (k # ks)))"

text \<open>\<^verbatim>\<open>main\<close> of symmetric\_forms/main.py.\<close>

definition main_symmetric :: "run_env \<Rightarrow> args \<Rightarrow> run" where
  "main_symmetric env a =
     run_steps
       [make_dir env a,
        save_args env a,
        (case load_dataset_symmetric (raw env) of
           (ev_load, Inl e) \<Rightarrow> (ev_load, Some e)
         | (ev_load, Inr ((x_train, y_train), (x_test', y_test'))) \<Rightarrow>
             let y_train' = (case max_num_samples a of
                               None \<Rightarrow> y_train | Some n \<Rightarrow> py_take n y_train);
                 x_train' = (case max_num_samples a of
                               None \<Rightarrow> x_train | Some n \<Rightarrow> py_take n x_train)
             in run_steps
                  [(ev_load, None),
                   (case max_num_samples a of
                      None \<Rightarrow> [] | Some n \<Rightarrow> [Print (UsingOnly (length x_train'))], None),
                   (case argmax_rows y_train' of
                      Inl e \<Rightarrow> ([], Some e)
                    | Inr labels \<Rightarrow>
                        run_steps
                          [create_model env (FullShape [28, 28, 3]) (length (remdups labels)) 3
                             (num_routing a),
                           ([ModelSummary], None),
                           load_weights env a [],
                           (if \<not> testing a
                            then run_steps [([Print BannerTrain], None), train_stage env]
                            else run_steps
                                   [([Print BannerTest], None),
                                    (if weights a = None then [Print WarnNoWeights] else [], None),
                                    ([ShowPrimaryLayer], show_error env)]),
                           ([Print BannerEnd], None)])])]"

text \<open>The files of a file system after a trace: a write replaces the file's content.\<close>

fun run_files :: "event list \<Rightarrow> (string \<rightharpoonup> content) \<Rightarrow> (string \<rightharpoonup> content)" where
  "run_files [] fs = fs"
| "run_files (WriteFile p c # evs) fs = run_files evs (fs(p \<mapsto> c))"
| "run_files (ev # evs) fs = run_files evs fs"

definition writes_to :: "string \<Rightarrow> event list \<Rightarrow> bool" where
  "writes_to p evs \<longleftrightarrow>
     list_ex (\<lambda>ev. case ev of WriteFile q c \<Rightarrow> q = p | _ \<Rightarrow> False) evs"

section \<open>The capsule layers (module capsule, not among the sources at hand)\<close>

text \<open>
  Both entry points import \<^verbatim>\<open>PrimaryCaps\<close> and \<^verbatim>\<open>CapsuleLayer\<close> from the module
  \<^verbatim>\<open>capsule\<close>, whose file is not available.  The squash function and the routing layer
  are therefore taken from the specification (sections 4.1 and 4.3), over the reals.
\<close>

definition sq_norm :: "real list \<Rightarrow> real" where
  "sq_norm v = sum_list (map (\<lambda>x. x * x) v)"

definition vec_norm :: "real list \<Rightarrow> real" where
  "vec_norm v = sqrt (sq_norm v)"

text \<open>
  Modelled from the spec: the squash function of the missing module \<^verbatim>\<open>capsule\<close>.
  Section 4.1: each vector is rescaled to \<open>(\<parallel>v\<parallel>\<^sup>2 / (1 + \<parallel>v\<parallel>\<^sup>2)) \<cdot> (v / \<parallel>v\<parallel>)\<close>, with a small
  epsilon added to the denominator of \<open>v / \<parallel>v\<parallel>\<close>.
\<close>

definition squash :: "real \<Rightarrow> real list \<Rightarrow> real list" where
  "squash eps v = map (\<lambda>x. (sq_norm v / (1 + sq_norm v)) * (x / (vec_norm v + eps))) v"

text \<open>
  Modelled from the spec: squash on a batch of vectors (missing module \<^verbatim>\<open>capsule\<close>),
  applied to each vector along the last axis.
\<close>

definition squash_batch :: "real \<Rightarrow> real list list \<Rightarrow> real list list" where
  "squash_batch eps batch = map (squash eps) batch"

text \<open>
  Modelled from the spec: the softmax over the higher-capsule axis used by the routing
  layer of the missing module \<^verbatim>\<open>capsule\<close> (section 4.3, step 1).
\<close>

definition softmax :: "real list \<Rightarrow> real list" where
  "softmax bs = map (\<lambda>b. exp b / sum_list (map exp bs)) bs"

definition dot :: "real list \<Rightarrow> real list \<Rightarrow> real" where
  "dot u v = sum_list (map2 (*) u v)"

text \<open>
  Modelled from the spec: the routing-by-agreement layer of the missing module
  \<^verbatim>\<open>capsule\<close> (section 4.3).  \<open>u_hat ! i ! j\<close> is the prediction vector of lower capsule
  \<open>i\<close> for higher capsule \<open>j\<close>; the logits \<open>b\<close> start at zero; an iteration computes the
  coupling coefficients \<open>c[i,j] = softmax\<^sub>j(b[i,:])\<close>, the weighted sums
  \<open>s[j] = \<Sum>\<^sub>i c[i,j] \<cdot> u_hat[i,j]\<close>, the outputs \<open>v[j] = squash(s[j])\<close>, and adds the
  agreement \<open>u_hat[i,j] \<cdot> v[j]\<close> to \<open>b[i,j]\<close>.
\<close>

definition init_logits :: "nat \<Rightarrow> nat \<Rightarrow> real list list" where
  "init_logits n_lower n_higher = replicate n_lower (replicate n_higher 0)"

definition coupling :: "real list list \<Rightarrow> real list list" where
  "coupling b = map softmax b"

definition weighted_sums :: "real list list \<Rightarrow> real list list list \<Rightarrow> nat \<Rightarrow> nat \<Rightarrow> real list list" where
  "weighted_sums c u_hat n_higher out_dim =
     map (\<lambda>j. map (\<lambda>d. sum_list (map (\<lambda>i. c ! i ! j * u_hat ! i ! j ! d) [0..<length c]))
                   [0..<out_dim])
         [0..<n_higher]"

definition routing_output ::
  "real \<Rightarrow> real list list list \<Rightarrow> nat \<Rightarrow> nat \<Rightarrow> real list list \<Rightarrow> real list list" where
  "routing_output eps u_hat n_higher out_dim b =
     squash_batch eps (weighted_sums (coupling b) u_hat n_higher out_dim)"

definition update_logits ::
  "real \<Rightarrow> real list list list \<Rightarrow> nat \<Rightarrow> nat \<Rightarrow> real list list \<Rightarrow> real list list" where
  "update_logits eps u_hat n_higher out_dim b =
     (let v = routing_output eps u_hat n_higher out_dim b
      in map (\<lambda>i. map (\<lambda>j. b ! i ! j + dot (u_hat ! i ! j) (v ! j)) [0..<length (b ! i)])
             [0..<length b])"

text \<open>The logits at the start of iteration \<open>k\<close>, counting from zero.\<close>

primrec routing_logits ::
  "real \<Rightarrow> real list list list \<Rightarrow> nat \<Rightarrow> nat \<Rightarrow> nat \<Rightarrow> nat \<Rightarrow> real list list" where
  "routing_logits eps u_hat n_lower n_higher out_dim 0 = init_logits n_lower n_higher"
| "routing_logits eps u_hat n_lower n_higher out_dim (Suc k) =
     update_logits eps u_hat n_higher out_dim (routing_logits eps u_hat n_lower n_higher out_dim k)"

text \<open>The coupling coefficients computed in iteration \<open>k\<close>.\<close>

definition routing_coupling ::
  "real \<Rightarrow> real list list list \<Rightarrow> nat \<Rightarrow> nat \<Rightarrow> nat \<Rightarrow> nat \<Rightarrow> real list list" where
  "routing_coupling eps u_hat n_lower n_higher out_dim k =
     coupling (routing_logits eps u_hat n_lower n_higher out_dim k)"

text \<open>The output of the layer after \<open>num_routing\<close> iterations (at least one).\<close>

definition routing ::
  "real \<Rightarrow> real list list list \<Rightarrow> nat \<Rightarrow> nat \<Rightarrow> nat \<Rightarrow> nat \<Rightarrow> real list list" where
  "routing eps u_hat n_lower n_higher out_dim n_iter =
     routing_output eps u_hat n_higher out_dim
       (routing_logits eps u_hat n_lower n_higher out_dim (n_iter - 1))"

text \<open>The factor by which \<open>squash\<close> scales every component of a vector.\<close>

definition squash_factor :: "real \<Rightarrow> real list \<Rightarrow> real" where
  "squash_factor eps v = sq_norm v / (1 + sq_norm v) / (vec_norm v + eps)"

section \<open>Concrete inputs\<close>

text \<open>
  Three test images of one pixel: the first is misclassified, the second is classified
  correctly and the attack finds nothing, the third is classified correctly and the
  attack's image is classified differently.
\<close>

definition demo_env :: attack_env where
  "demo_env =
     \<lparr>fool_model = (\<lambda>x. if x = [[[0]]] then [1, 0] else [0, 1]),
      attack = (\<lambda>x y. if x = [[[1]]] then None else Some [[[0]]]),
      x_test = [[[[0]]], [[[1]]], [[[2]]]],
      y_test = [[0, 1], [0, 1], [0, 1]]\<rparr>"

text \<open>
  Data sets of two training images and one test image, of 32 x 32 and of 28 x 28 black
  pixels, and runs that find them, an existing \<open>save_dir\<close> and no weights file.  On these
  runs \<^verbatim>\<open>create_capsnet\<close> raises for the nested shape of the crop options,
  \<^verbatim>\<open>test\<close> raises before it saves anything (one test sample is less than a batch of
  100, so nothing is predicted), and no other call outside the program raises.  In
  \<open>strict_run_env\<close>, \<^verbatim>\<open>create_capsnet\<close> raises for a \<open>num_routing\<close> below one as
  well.
\<close>

definition black_images :: "nat \<Rightarrow> nat \<Rightarrow> nat \<Rightarrow> nat list list list list" where
  "black_images n h w = replicate n (replicate h (replicate w [0, 0, 0]))"

definition demo_raw :: raw_dataset where
  "demo_raw = \<lparr>train_images = black_images 2 32 32, train_labels = [0, 1],
               test_images = black_images 1 32 32, test_labels = [1]\<rparr>"

definition demo_symmetric_raw :: raw_dataset where
  "demo_symmetric_raw = \<lparr>train_images = black_images 2 28 28, train_labels = [0, 1],
                         test_images = black_images 1 28 28, test_labels = [1]\<rparr>"

definition demo_run_env :: run_env where
  "demo_run_env =
     \<lparr>save_dir_exists = True, makedirs_error = None, open_error = None,
      weights_exists = False, raw = demo_raw,
      create_error = (\<lambda>shape n_class out_dim r.
                        case shape of FullShape dims \<Rightarrow> None
                                    | CropShape x y dims \<Rightarrow> Some LibraryError),
      load_weights_error = None, test_saved = None, test_error = Some ValueError,
      manipulate_error = None, train_error = None, show_error = None,
      predict = (\<lambda>x. [0, 1]), fgsm = (\<lambda>x y. None)\<rparr>"


definition demo_symmetric_env :: run_env where
  "demo_symmetric_env = demo_run_env\<lparr>raw := demo_symmetric_raw\<rparr>"


section \<open>Properties of the attack driver\<close>

lemma attack_body_counts:
  assumes "attack_body env st i = Inr st'"
  shows "num_attacks st' = num_attacks st + (if eligible env i then 1 else 0)
       \<and> num_success_attacks st' =
           num_success_attacks st + (if eligible env i \<and> reversed_fools env i then 1 else 0)"
  using assms
  by (auto simp: attack_body_def eligible_def reversed_fools_def true_label_def predicted_def
             bgr_to_rgb_def Let_def
           split: if_splits sum.splits option.splits)





lemma attack_loop_append:
  "attack_loop env (xs @ ys) st =
     (case attack_loop env xs st of Inl e \<Rightarrow> Inl e | Inr s \<Rightarrow> attack_loop env ys s)"
  by (induction xs arbitrary: st) (auto split: sum.splits)












lemma demo_run:
  "adversarial_attack demo_env 3 False =
     Inr (\<lparr>num_attacks = 2, num_success_attacks = 1, debug = False, num_shown = 0\<rparr>,
          [Rule, NumAttacksLine 2, NumSuccessLine 1, SuccessRateLine (Times (TrueDiv 1 2) 100)])"
  by (simp add: adversarial_attack_def demo_env_def attack_init_def attack_body_def
        np_argmax_def bgr_to_rgb_def print_results_def py_truediv_def upt_rec Let_def)

lemma attack_body_no_zerodiv: "attack_body env st i \<noteq> Inl ZeroDivisionError"
  by (auto simp: attack_body_def np_argmax_def Let_def split: list.splits option.splits)

lemma attack_loop_no_zerodiv: "attack_loop env ids st \<noteq> Inl ZeroDivisionError"
  by (induction ids arbitrary: st) (auto simp: attack_body_no_zerodiv split: sum.splits)

text \<open>
  Claim C5.  When the loop completes, the driver returns what it then prints: with no
  attempted attack the warning alone, and no success rate; otherwise the counters and
  the float \<^verbatim>\<open>num_success_attacks / num_attacks * 100\<close>, the success rate as a
  percentage (the exact quotient times 100, up to the rounding of the division and of the
  product).  Whatever the driver returns comes about in this way.  The division is
  reached with a non-zero divisor only: neither the report nor the driver ever raises
  ZeroDivisionError, and an exception of the loop is the driver's, with no report.
\<close>

theorem attack_report:
  "(attack_loop env [0..<max_num_attacks] (attack_init dbg) = Inr st \<longrightarrow>
      adversarial_attack env max_num_attacks dbg =
        Inr (st, if num_attacks st = 0 then [WarnNoAttack]
                 else [Rule, NumAttacksLine (num_attacks st),
                       NumSuccessLine (num_success_attacks st),
                       SuccessRateLine
                         (Times (TrueDiv (num_success_attacks st) (num_attacks st)) 100)]))
   \<and> (adversarial_attack env max_num_attacks dbg = Inr (st, out) \<longrightarrow>
        attack_loop env [0..<max_num_attacks] (attack_init dbg) = Inr st
        \<and> (num_attacks st = 0 \<longrightarrow> out = [WarnNoAttack])
        \<and> (num_attacks st \<noteq> 0 \<longrightarrow>
             out = [Rule, NumAttacksLine (num_attacks st),
                    NumSuccessLine (num_success_attacks st),
                    SuccessRateLine
                      (Times (TrueDiv (num_success_attacks st) (num_attacks st)) 100)]))
   \<and> (attack_loop env [0..<max_num_attacks] (attack_init dbg) = Inl e \<longrightarrow>
        adversarial_attack env max_num_attacks dbg = Inl e)
   \<and> exact_value (Times (TrueDiv (num_success_attacks st) (num_attacks st)) 100)
       = real (num_success_attacks st) / real (num_attacks st) * 100
   \<and> float_value rnd (Times (TrueDiv (num_success_attacks st) (num_attacks st)) 100)
       = rnd (rnd (real (num_success_attacks st) / real (num_attacks st)) * 100)
   \<and> print_results st \<noteq> Inl ZeroDivisionError
   \<and> adversarial_attack env max_num_attacks dbg \<noteq> Inl ZeroDivisionError"
proof -
  have a: "print_results st \<noteq> Inl ZeroDivisionError" for st
    by (simp add: print_results_def py_truediv_def)
  have z: "adversarial_attack env max_num_attacks dbg \<noteq> Inl ZeroDivisionError"
    using attack_loop_no_zerodiv [of env "[0..<max_num_attacks]" "attack_init dbg"] a
    by (auto simp: adversarial_attack_def split: sum.splits)
  have p: "print_results s =
             Inr (if num_attacks s = 0 then [WarnNoAttack]
                  else [Rule, NumAttacksLine (num_attacks s),
                        NumSuccessLine (num_success_attacks s),
                        SuccessRateLine
                          (Times (TrueDiv (num_success_attacks s) (num_attacks s)) 100)])" for s
    by (simp add: print_results_def py_truediv_def)
  have fwd: "attack_loop env [0..<max_num_attacks] (attack_init dbg) = Inr st \<longrightarrow>
      adversarial_attack env max_num_attacks dbg =
        Inr (st, if num_attacks st = 0 then [WarnNoAttack]
                 else [Rule, NumAttacksLine (num_attacks st),
                       NumSuccessLine (num_success_attacks st),
                       SuccessRateLine
                         (Times (TrueDiv (num_success_attacks st) (num_attacks st)) 100)])"
    by (simp add: adversarial_attack_def p)
  have bwd: "adversarial_attack env max_num_attacks dbg = Inr (st, out) \<longrightarrow>
        attack_loop env [0..<max_num_attacks] (attack_init dbg) = Inr st
        \<and> (num_attacks st = 0 \<longrightarrow> out = [WarnNoAttack])
        \<and> (num_attacks st \<noteq> 0 \<longrightarrow>
             out = [Rule, NumAttacksLine (num_attacks st),
                    NumSuccessLine (num_success_attacks st),
                    SuccessRateLine
                      (Times (TrueDiv (num_success_attacks st) (num_attacks st)) 100)])"
    by (auto simp: adversarial_attack_def p split: sum.splits)
  have err: "attack_loop env [0..<max_num_attacks] (attack_init dbg) = Inl e \<longrightarrow>
        adversarial_attack env max_num_attacks dbg = Inl e"
    by (simp add: adversarial_attack_def)
  have ex: "exact_value (Times (TrueDiv (num_success_attacks st) (num_attacks st)) 100)
       = real (num_success_attacks st) / real (num_attacks st) * 100"
    by simp
  have fv: "float_value rnd (Times (TrueDiv (num_success_attacks st) (num_attacks st)) 100)
       = rnd (rnd (real (num_success_attacks st) / real (num_attacks st)) * 100)"
    by simp
  show ?thesis
    by (intro conjI) (rule fwd bwd err ex fv a z)+
qed

text \<open>
  The report of C5 on the three one-pixel samples, one success in two attacks, and on none
  of them, no attack.
\<close>

theorem attack_report_witness:
  "attack_loop demo_env [0..<3] (attack_init False)
     = Inr \<lparr>num_attacks = 2, num_success_attacks = 1, debug = False, num_shown = 0\<rparr>
   \<and> adversarial_attack demo_env 3 False
     = Inr (\<lparr>num_attacks = 2, num_success_attacks = 1, debug = False, num_shown = 0\<rparr>,
            [Rule, NumAttacksLine 2, NumSuccessLine 1, SuccessRateLine (Times (TrueDiv 1 2) 100)])
   \<and> attack_loop demo_env [0..<0] (attack_init False) = Inr (attack_init False)
   \<and> adversarial_attack demo_env 0 False = Inr (attack_init False, [WarnNoAttack])"
proof -
  have l3: "attack_loop demo_env [0..<3] (attack_init False)
     = Inr \<lparr>num_attacks = 2, num_success_attacks = 1, debug = False, num_shown = 0\<rparr>"
    by (simp add: demo_env_def attack_init_def attack_body_def
        np_argmax_def bgr_to_rgb_def upt_rec Let_def)
  have l0: "attack_loop demo_env [0..<0] (attack_init False) = Inr (attack_init False)"
    by simp
  have r3: "adversarial_attack demo_env 3 False
     = Inr (\<lparr>num_attacks = 2, num_success_attacks = 1, debug = False, num_shown = 0\<rparr>,
            [Rule, NumAttacksLine 2, NumSuccessLine 1, SuccessRateLine (Times (TrueDiv 1 2) 100)])"
  proof -
    note t = attack_report [where env = demo_env and max_num_attacks = 3 and dbg = False
        and st = "\<lparr>num_attacks = 2, num_success_attacks = 1, debug = False, num_shown = 0\<rparr>",
        THEN conjunct1, rule_format, OF l3]
    show ?thesis unfolding t by simp
  qed
  have r0: "adversarial_attack demo_env 0 False = Inr (attack_init False, [WarnNoAttack])"
  proof -
    note t = attack_report [where env = demo_env and max_num_attacks = 0 and dbg = False
        and st = "attack_init False", THEN conjunct1, rule_format, OF l0]
    show ?thesis unfolding t by (simp add: attack_init_def)
  qed
  show ?thesis using l3 r3 l0 r0 by blast
qed

lemma attack_loop_bounds:
  "attack_loop env ids st = Inr st' \<Longrightarrow> num_success_attacks st \<le> num_attacks st \<Longrightarrow>
     num_success_attacks st' \<le> num_attacks st' \<and> num_attacks st' \<le> num_attacks st + length ids"
proof (induction ids arbitrary: st)
  case Nil
  then show ?case by simp
next
  case (Cons i ids)
  from Cons.prems(1) obtain s1 where b: "attack_body env st i = Inr s1"
    and l: "attack_loop env ids s1 = Inr st'"
    by (auto split: sum.splits)
  have "num_success_attacks s1 \<le> num_attacks s1" "num_attacks s1 \<le> num_attacks st + 1"
    using attack_body_counts [OF b] Cons.prems(2) by (auto split: if_splits)
  then show ?case using Cons.IH [OF l] by simp
qed

text \<open>
  Claim C8.  After any number \<open>k \<le> max_num_attacks\<close> of iterations the counters satisfy
  \<open>0 \<le> num_success_attacks \<le> num_attacks \<le> k \<le> max_num_attacks\<close>; the state after
  \<open>k\<close> iterations is the one the full loop passes through.  An iteration on a correctly
  classified sample for which the attack returns \<^verbatim>\<open>None\<close> adds one to \<open>num_attacks\<close>
  and leaves \<open>num_success_attacks\<close> as it is, so the sample counts as a failed attack.
\<close>

theorem attack_counter_invariant:
  "(k \<le> max_num_attacks \<and> attack_loop env [0..<k] (attack_init dbg) = Inr st \<longrightarrow>
      0 \<le> num_success_attacks st \<and> num_success_attacks st \<le> num_attacks st
      \<and> num_attacks st \<le> k \<and> k \<le> max_num_attacks)
   \<and> (k \<le> max_num_attacks \<longrightarrow>
        attack_loop env [0..<max_num_attacks] (attack_init dbg) =
          (case attack_loop env [0..<k] (attack_init dbg) of
             Inl e \<Rightarrow> Inl e
           | Inr s \<Rightarrow> attack_loop env [k..<max_num_attacks] s))
   \<and> (i < length (x_test env) \<and> i < length (y_test env) \<and> true_label env i = Inr y
        \<and> predicted env (x_test env ! i) = Inr y \<and> attack env (x_test env ! i) y = None \<longrightarrow>
        attack_body env s i = Inr (s\<lparr>num_attacks := num_attacks s + 1\<rparr>))"
proof (intro conjI impI)
  assume h: "k \<le> max_num_attacks \<and> attack_loop env [0..<k] (attack_init dbg) = Inr st"
  then have "num_success_attacks st \<le> num_attacks st \<and> num_attacks st \<le> 0 + length [0..<k]"
    using attack_loop_bounds [of env "[0..<k]" "attack_init dbg" st]
    by (simp add: attack_init_def)
  then show "num_success_attacks st \<le> num_attacks st" "num_attacks st \<le> k" by simp_all
  show "k \<le> max_num_attacks" using h by simp
  show "0 \<le> num_success_attacks st" by simp
next
  assume "k \<le> max_num_attacks"
  then have "[0..<max_num_attacks] = [0..<k] @ [k..<max_num_attacks]"
    using upt_add_eq_append [of 0 k "max_num_attacks - k"] by simp
  then show "attack_loop env [0..<max_num_attacks] (attack_init dbg) =
          (case attack_loop env [0..<k] (attack_init dbg) of
             Inl e \<Rightarrow> Inl e
           | Inr s \<Rightarrow> attack_loop env [k..<max_num_attacks] s)"
    by (simp add: attack_loop_append)
next
  assume "i < length (x_test env) \<and> i < length (y_test env) \<and> true_label env i = Inr y
        \<and> predicted env (x_test env ! i) = Inr y \<and> attack env (x_test env ! i) y = None"
  then show "attack_body env s i = Inr (s\<lparr>num_attacks := num_attacks s + 1\<rparr>)"
    by (simp add: attack_body_def true_label_def predicted_def Let_def)
qed

text \<open>
  The invariant of C8 after two of three iterations, and the second sample, for which the
  attack finds nothing.
\<close>

theorem attack_counter_invariant_witness:
  "(2::nat) \<le> 3
   \<and> attack_loop demo_env [0..<2] (attack_init False)
       = Inr \<lparr>num_attacks = 1, num_success_attacks = 0, debug = False, num_shown = 0\<rparr>
   \<and> (0::nat) \<le> 1 \<and> (1::nat) \<le> 2
   \<and> 1 < length (x_test demo_env) \<and> 1 < length (y_test demo_env)
   \<and> true_label demo_env 1 = Inr 1 \<and> predicted demo_env (x_test demo_env ! 1) = Inr 1
   \<and> attack demo_env (x_test demo_env ! 1) 1 = None
   \<and> attack_body demo_env (attack_init False) 1 = Inr ((attack_init False)\<lparr>num_attacks := 1\<rparr>)"
proof -
  have l: "attack_loop demo_env [0..<2] (attack_init False)
       = Inr \<lparr>num_attacks = 1, num_success_attacks = 0, debug = False, num_shown = 0\<rparr>"
    by (simp add: demo_env_def attack_init_def attack_body_def
        np_argmax_def bgr_to_rgb_def upt_rec Let_def)
  have h: "1 < length (x_test demo_env) \<and> 1 < length (y_test demo_env)
   \<and> true_label demo_env 1 = Inr 1 \<and> predicted demo_env (x_test demo_env ! 1) = Inr 1
   \<and> attack demo_env (x_test demo_env ! 1) 1 = None"
    by (simp add: demo_env_def true_label_def predicted_def np_argmax_def)
  show ?thesis
    using l h
      attack_counter_invariant [of 2 3 demo_env False
        "\<lparr>num_attacks = 1, num_success_attacks = 0, debug = False, num_shown = 0\<rparr>"
        1 1 "attack_init False"]
    by (simp add: attack_init_def)
qed

section \<open>Properties of squash\<close>

lemma sq_norm_nonneg: "0 \<le> sq_norm v"
  unfolding sq_norm_def by (rule sum_list_nonneg) auto

lemma sq_norm_zero_iff: "sq_norm v = 0 \<longleftrightarrow> (\<forall>x\<in>set v. x = 0)"
proof (induction v)
  case Nil
  then show ?case by (simp add: sq_norm_def)
next
  case (Cons a v)
  have "0 \<le> a * a" by simp
  moreover have "0 \<le> sq_norm v" by (rule sq_norm_nonneg)
  ultimately have "a * a + sq_norm v = 0 \<longleftrightarrow> a * a = 0 \<and> sq_norm v = 0"
    by (rule add_nonneg_eq_0_iff)
  then show ?case using Cons by (simp add: sq_norm_def)
qed

lemma sq_norm_scale: "sq_norm (map (\<lambda>x. k * x) v) = k * k * sq_norm v"
  by (induction v) (simp_all add: sq_norm_def algebra_simps)

lemma vec_norm_nonneg: "0 \<le> vec_norm v"
  by (simp add: vec_norm_def sq_norm_nonneg)

lemma vec_norm_sq: "vec_norm v * vec_norm v = sq_norm v"
  by (simp add: vec_norm_def sq_norm_nonneg)

lemma vec_norm_zero_iff: "vec_norm v = 0 \<longleftrightarrow> (\<forall>x\<in>set v. x = 0)"
  by (simp add: vec_norm_def sq_norm_zero_iff)

lemma vec_norm_scale: "0 \<le> k \<Longrightarrow> vec_norm (map (\<lambda>x. k * x) v) = k * vec_norm v"
  by (simp add: vec_norm_def sq_norm_scale real_sqrt_mult)

lemma squash_as_scale: "squash eps v = map (\<lambda>x. squash_factor eps v * x) v"
  by (simp add: squash_def squash_factor_def)

lemma squash_factor_nonneg: "0 < eps \<Longrightarrow> 0 \<le> squash_factor eps v"
  unfolding squash_factor_def
  using sq_norm_nonneg [of v] vec_norm_nonneg [of v] by simp

lemma squash_norm:
  assumes "0 < eps"
  shows "vec_norm (squash eps v) =
           (sq_norm v / (1 + sq_norm v)) * (vec_norm v / (vec_norm v + eps))"
  using vec_norm_scale [OF squash_factor_nonneg [OF assms], of v]
  by (simp add: squash_as_scale squash_factor_def)

lemma squash_norm_less_1:
  assumes "0 < eps"
  shows "vec_norm (squash eps v) < 1"
proof -
  let ?s = "sq_norm v" and ?n = "vec_norm v"
  have s: "0 \<le> ?s" by (rule sq_norm_nonneg)
  have n: "0 \<le> ?n" by (rule vec_norm_nonneg)
  have a: "?s / (1 + ?s) < 1" "0 \<le> ?s / (1 + ?s)" using s by simp_all
  have b: "?n / (?n + eps) < 1" "0 \<le> ?n / (?n + eps)" using n assms by simp_all
  have "(?s / (1 + ?s)) * (?n / (?n + eps)) < 1 * 1"
    using a b by (intro mult_strict_mono') simp_all
  then show ?thesis by (simp add: squash_norm [OF assms])
qed

lemma squash_norm_zero_iff:
  assumes "0 < eps"
  shows "vec_norm (squash eps v) = 0 \<longleftrightarrow> (\<forall>x\<in>set v. x = 0)"
proof -
  have s: "0 \<le> sq_norm v" by (rule sq_norm_nonneg)
  have n: "0 \<le> vec_norm v" by (rule vec_norm_nonneg)
  have "1 + sq_norm v \<noteq> 0" "vec_norm v + eps \<noteq> 0" using s n assms by simp_all
  then have "vec_norm (squash eps v) = 0 \<longleftrightarrow> sq_norm v = 0 \<or> vec_norm v = 0"
    by (simp add: squash_norm [OF assms])
  then show ?thesis by (simp add: sq_norm_zero_iff vec_norm_zero_iff)
qed

lemma squash_norm_close:
  assumes "0 < eps"
  shows "\<bar>vec_norm (squash eps v) - sq_norm v / (1 + sq_norm v)\<bar> \<le> eps"
proof -
  let ?s = "sq_norm v" and ?n = "vec_norm v"
  have s: "0 \<le> ?s" by (rule sq_norm_nonneg)
  have n: "0 \<le> ?n" by (rule vec_norm_nonneg)
  have ne: "?n + eps \<noteq> 0" using n assms by simp
  have "?s / (1 + ?s) - vec_norm (squash eps v) = (?s / (1 + ?s)) * (1 - ?n / (?n + eps))"
    by (simp add: squash_norm [OF assms] algebra_simps)
  also have "1 - ?n / (?n + eps) = eps / (?n + eps)"
    using ne by (simp add: field_simps)
  finally have d: "?s / (1 + ?s) - vec_norm (squash eps v) = (?s / (1 + ?s)) * (eps / (?n + eps))" .
  have a: "0 \<le> ?s / (1 + ?s)" using s by simp
  have b: "0 \<le> eps / (?n + eps)" using n assms by simp
  have nonneg: "0 \<le> (?s / (1 + ?s)) * (eps / (?n + eps))"
    using a b by (rule mult_nonneg_nonneg)
  have "0 \<le> (?n - 1 / 2) * (?n - 1 / 2)" by (rule zero_le_square)
  then have "0 \<le> (?n - 1 / 2) * (?n - 1 / 2) + 3 / 4" by simp
  with n have "0 \<le> ?n * ((?n - 1 / 2) * (?n - 1 / 2) + 3 / 4)"
    by (rule mult_nonneg_nonneg)
  then have "?n * ?n \<le> ?n + ?n * (?n * ?n)"
    by (simp add: algebra_simps)
  then have "?s \<le> ?n + ?n * ?s" by (simp add: vec_norm_sq)
  also have "\<dots> \<le> (1 + ?s) * (?n + eps)"
    using s assms by (simp add: algebra_simps)
  finally have le: "?s \<le> (1 + ?s) * (?n + eps)" .
  have pos: "0 < (1 + ?s) * (?n + eps)" using s n assms by (simp add: add_nonneg_pos)
  have "?s / ((1 + ?s) * (?n + eps)) \<le> 1" using le pos by simp
  then have "?s / ((1 + ?s) * (?n + eps)) * eps \<le> 1 * eps"
    using assms by (intro mult_right_mono) simp_all
  then have upper: "(?s / (1 + ?s)) * (eps / (?n + eps)) \<le> eps" by simp
  from nonneg upper have True by simp
  moreover note nonneg upper
  ultimately show ?thesis using d by linarith
qed

text \<open>
  Claim C1.  For a positive epsilon, squash keeps the shape of the batch and maps every
  vector \<open>v\<close> to a non-negative multiple of itself (same direction), of length
  \<open>(\<parallel>v\<parallel>\<^sup>2 / (1 + \<parallel>v\<parallel>\<^sup>2)) \<cdot> (\<parallel>v\<parallel> / (\<parallel>v\<parallel> + eps))\<close>.  That length is within \<open>eps\<close> of
  \<open>\<parallel>v\<parallel>\<^sup>2 / (1 + \<parallel>v\<parallel>\<^sup>2)\<close>, strictly below 1, and zero exactly for the zero vector.
\<close>

theorem squash_contract:
  assumes "0 < eps" and "i < length batch"
  shows "length (squash_batch eps batch) = length batch
       \<and> length (squash_batch eps batch ! i) = length (batch ! i)
       \<and> (\<exists>k\<ge>0. squash_batch eps batch ! i = map (\<lambda>x. k * x) (batch ! i))
       \<and> vec_norm (squash_batch eps batch ! i) =
           (sq_norm (batch ! i) / (1 + sq_norm (batch ! i)))
             * (vec_norm (batch ! i) / (vec_norm (batch ! i) + eps))
       \<and> \<bar>vec_norm (squash_batch eps batch ! i)
            - sq_norm (batch ! i) / (1 + sq_norm (batch ! i))\<bar> \<le> eps
       \<and> vec_norm (squash_batch eps batch ! i) < 1
       \<and> (vec_norm (squash_batch eps batch ! i) = 0 \<longleftrightarrow> (\<forall>x\<in>set (batch ! i). x = 0))"
proof -
  have b: "squash_batch eps batch ! i = squash eps (batch ! i)"
    using assms(2) by (simp add: squash_batch_def)
  have k: "\<exists>k\<ge>0. squash eps (batch ! i) = map (\<lambda>x. k * x) (batch ! i)"
    using squash_factor_nonneg [OF assms(1)] squash_as_scale by blast
  show ?thesis
    unfolding b
    using k squash_norm [OF assms(1)] squash_norm_close [OF assms(1)]
      squash_norm_less_1 [OF assms(1)] squash_norm_zero_iff [OF assms(1)]
    by (simp add: squash_batch_def squash_def)
qed

text \<open>
  The contract of C1 on the vector \<open>(3, 4)\<close> with epsilon 1.
\<close>

theorem squash_contract_witness:
  "(0::real) < 1 \<and> (0::nat) < length [[3, 4::real]]
   \<and> vec_norm (squash_batch 1 [[3, 4]] ! 0) < 1
   \<and> vec_norm (squash_batch 1 [[3, 4]] ! 0) \<noteq> 0"
proof -
  have h1: "(0::real) < 1" by simp
  have h2: "(0::nat) < length [[3, 4::real]]" by simp
  have nz: "\<not> (\<forall>x\<in>set ([[3, 4::real]] ! 0). x = 0)" by simp
  have lt: "vec_norm (squash_batch 1 [[3, 4]] ! 0) < 1"
    using squash_contract [OF h1 h2] by blast
  have ne: "vec_norm (squash_batch 1 [[3, 4]] ! 0) \<noteq> 0"
    using squash_contract [OF h1 h2] nz by blast
  show ?thesis using h1 h2 lt ne by blast
qed

section \<open>Properties of the routing layer\<close>

lemma sum_exp_pos: "bs \<noteq> [] \<Longrightarrow> 0 < sum_list (map exp bs)" for bs :: "real list"
proof (induction bs)
  case Nil
  then show ?case by simp
next
  case (Cons b bs)
  have "0 \<le> sum_list (map exp bs)" by (rule sum_list_nonneg) auto
  moreover have "0 < exp b" by simp
  ultimately show ?case by (simp add: add_pos_nonneg)
qed

lemma length_softmax: "length (softmax bs) = length bs"
  by (simp add: softmax_def)

lemma softmax_nth_nonneg:
  assumes "j < length bs"
  shows "0 \<le> softmax bs ! j"
proof -
  have "0 \<le> sum_list (map exp bs)" by (rule sum_list_nonneg) auto
  then show ?thesis using assms by (simp add: softmax_def)
qed

lemma softmax_sum:
  assumes "bs \<noteq> []"
  shows "sum_list (softmax bs) = 1"
proof -
  let ?S = "sum_list (map exp bs)"
  have pos: "0 < ?S" using assms by (rule sum_exp_pos)
  have "sum_list (softmax bs) = sum_list (map (\<lambda>b. exp b * inverse ?S) bs)"
    by (simp add: softmax_def divide_inverse)
  also have "\<dots> = ?S * inverse ?S"
    by (simp add: sum_list_mult_const)
  also have "\<dots> = 1" using pos by simp
  finally show ?thesis .
qed

lemma length_update_logits: "length (update_logits eps u_hat n_higher out_dim b) = length b"
  by (simp add: update_logits_def Let_def)

lemma length_update_logits_row:
  "i < length b \<Longrightarrow> length (update_logits eps u_hat n_higher out_dim b ! i) = length (b ! i)"
  by (simp add: update_logits_def Let_def)

lemma routing_logits_shape:
  "length (routing_logits eps u_hat n_lower n_higher out_dim k) = n_lower
   \<and> (\<forall>i<n_lower. length (routing_logits eps u_hat n_lower n_higher out_dim k ! i) = n_higher)"
proof (induction k)
  case 0
  show ?case by (simp add: init_logits_def)
next
  case (Suc k)
  then show ?case by (simp add: length_update_logits length_update_logits_row)
qed

text \<open>
  Claim C2.  In every routing iteration \<open>k\<close>, the coupling coefficients form one row per
  lower capsule, with one entry per higher capsule; every entry is non-negative and every
  row sums to 1 (there being at least one higher capsule).
\<close>

theorem coupling_row_stochastic:
  assumes "0 < n_higher" and "i < n_lower"
  shows "length (routing_coupling eps u_hat n_lower n_higher out_dim k) = n_lower
       \<and> length (routing_coupling eps u_hat n_lower n_higher out_dim k ! i) = n_higher
       \<and> (\<forall>j<n_higher. 0 \<le> routing_coupling eps u_hat n_lower n_higher out_dim k ! i ! j)
       \<and> sum_list (routing_coupling eps u_hat n_lower n_higher out_dim k ! i) = 1"
proof -
  let ?b = "routing_logits eps u_hat n_lower n_higher out_dim k"
  have len: "length ?b = n_lower" and row: "length (?b ! i) = n_higher"
    using routing_logits_shape [of eps u_hat n_lower n_higher out_dim k] assms(2) by simp_all
  have c: "routing_coupling eps u_hat n_lower n_higher out_dim k ! i = softmax (?b ! i)"
    using len assms(2) by (simp add: routing_coupling_def coupling_def)
  have ne: "?b ! i \<noteq> []" using row assms(1) by auto
  show ?thesis
    unfolding c
    using len row softmax_sum [OF ne] softmax_nth_nonneg [of _ "?b ! i"]
    by (simp add: routing_coupling_def coupling_def length_softmax)
qed

text \<open>
  The row of C2 for one lower and two higher capsules, in the second iteration.
\<close>

theorem coupling_row_stochastic_witness:
  "(0::nat) < 2 \<and> (0::nat) < 1
   \<and> length (routing_coupling 1 [[[1, 0], [0, 1]]] 1 2 2 1) = 1
   \<and> length (routing_coupling 1 [[[1, 0], [0, 1]]] 1 2 2 1 ! 0) = 2
   \<and> 0 \<le> routing_coupling 1 [[[1, 0], [0, 1]]] 1 2 2 1 ! 0 ! 0
   \<and> 0 \<le> routing_coupling 1 [[[1, 0], [0, 1]]] 1 2 2 1 ! 0 ! 1
   \<and> sum_list (routing_coupling 1 [[[1, 0], [0, 1]]] 1 2 2 1 ! 0) = 1"
proof -
  have h1: "(0::nat) < 2" and h2: "(0::nat) < 1" by simp_all
  note t = coupling_row_stochastic [where n_higher = 2 and i = 0 and n_lower = 1 and eps = 1
      and u_hat = "[[[1, 0], [0, 1]]]" and out_dim = 2 and k = 1, OF h1 h2]
  from t have a: "\<forall>j<2. 0 \<le> routing_coupling 1 [[[1, 0], [0, 1]]] 1 2 2 1 ! 0 ! j"
    by blast
  have a0: "0 \<le> routing_coupling 1 [[[1, 0], [0, 1]]] 1 2 2 1 ! 0 ! 0"
    using a by simp
  have a1: "0 \<le> routing_coupling 1 [[[1, 0], [0, 1]]] 1 2 2 1 ! 0 ! 1"
    using a by simp
  show ?thesis using h1 h2 t a0 a1 by blast
qed

section \<open>Properties of the entry points\<close>

lemma fst_run_steps_Cons:
  "fst (run_steps (s # steps)) = fst s @ (if snd s = None then fst (run_steps steps) else [])"
  by (cases s; cases "snd s") auto

lemma snd_run_steps_Cons:
  "snd (run_steps (s # steps)) = (if snd s = None then snd (run_steps steps) else snd s)"
  by (cases s; cases "snd s") auto

lemma fst_run_steps_Nil: "fst (run_steps []) = []"
  by simp

lemma writes_to_append: "writes_to p (xs @ ys) \<longleftrightarrow> writes_to p xs \<or> writes_to p ys"
  by (simp add: writes_to_def)

lemma writes_to_Nil: "\<not> writes_to p []"
  by (simp add: writes_to_def)

lemma writes_to_Cons:
  "writes_to p (ev # evs) \<longleftrightarrow> (case ev of WriteFile q c \<Rightarrow> q = p | _ \<Rightarrow> False) \<or> writes_to p evs"
  by (simp add: writes_to_def)

lemma run_files_unchanged: "\<not> writes_to p evs \<Longrightarrow> run_files evs fs p = fs p"
  by (induction evs fs rule: run_files.induct) (auto simp: writes_to_Cons)

lemma test_writes_other:
  "\<not> writes_to (save_dir a @ ''/args.txt'') (test_writes a wrong)"
  by (induction wrong) (simp_all add: test_writes_def writes_to_Cons writes_to_Nil)

lemma manipulate_writes_other:
  "\<not> writes_to (save_dir a @ ''/args.txt'') (manipulate_writes a)"
  by (simp add: manipulate_writes_def writes_to_Cons writes_to_Nil)

lemma prints_no_write: "\<not> writes_to p (map (\<lambda>l. Print (f l)) out)"
  by (induction out) (simp_all add: writes_to_Cons writes_to_Nil)

lemma make_dir_no_write: "\<not> writes_to p (fst (make_dir env a))"
  by (simp add: make_dir_def writes_to_Cons writes_to_Nil)

lemma save_args_write:
  "writes_to (save_dir a @ ''/args.txt'') (fst (save_args env a))
     \<longleftrightarrow> \<not> testing a \<and> open_error env = None"
  by (simp add: save_args_def writes_to_Cons writes_to_Nil)

lemma create_model_no_write: "\<not> writes_to p (fst (create_model env shape n d r))"
  by (simp add: create_model_def writes_to_Cons writes_to_Nil)

lemma load_weights_no_write:
  "\<not> writes_to p otherwise \<Longrightarrow> \<not> writes_to p (fst (load_weights env a otherwise))"
  by (simp add: load_weights_def writes_to_Cons writes_to_Nil)

lemma test_stage_other: "\<not> writes_to (save_dir a @ ''/args.txt'') (fst (test_stage env a))"
  by (simp add: test_stage_def writes_to_Cons writes_to_Nil test_writes_other
        split: option.splits)

lemma manipulate_stage_other:
  "\<not> writes_to (save_dir a @ ''/args.txt'') (fst (manipulate_stage env a))"
  by (simp add: manipulate_stage_def writes_to_Cons writes_to_Nil manipulate_writes_other)

lemma fool_stage_no_write: "\<not> writes_to p (fst (fool_stage env xs ys))"
  by (simp add: fool_stage_def writes_to_Cons writes_to_Nil prints_no_write
        split: sum.splits prod.splits)

lemma train_stage_no_write: "\<not> writes_to p (fst (train_stage env))"
  by (simp add: train_stage_def writes_to_Cons writes_to_Nil)

lemma load_symmetric_prints:
  "load_dataset_symmetric r = (evs, res) \<Longrightarrow> \<not> writes_to p evs"
  by (auto simp: load_dataset_symmetric_def Let_def writes_to_Cons writes_to_Nil
        split: sum.splits)

lemma writes_run_steps_Cons:
  "writes_to p (fst (run_steps (s # steps))) \<longleftrightarrow>
     writes_to p (fst s) \<or> (snd s = None \<and> writes_to p (fst (run_steps steps)))"
  by (cases "snd s") (simp_all add: fst_run_steps_Cons writes_to_append writes_to_Nil)

lemma writes_run_steps_Nil: "\<not> writes_to p (fst (run_steps []))"
  by (simp add: writes_to_Nil)

lemmas stage_writes =
  writes_run_steps_Cons writes_run_steps_Nil writes_to_Cons writes_to_Nil
  make_dir_no_write save_args_write create_model_no_write load_weights_no_write
  test_stage_other manipulate_stage_other fool_stage_no_write train_stage_no_write

lemma make_dir_ok:
  "snd (make_dir env a) = None \<longleftrightarrow> save_dir_exists env \<or> makedirs_error env = None"
  by (simp add: make_dir_def)

lemma cifar10_args_file:
  "writes_to (save_dir a @ ''/args.txt'') (fst (main_cifar10 env a)) \<longleftrightarrow>
     \<not> testing a \<and> (save_dir_exists env \<or> makedirs_error env = None) \<and> open_error env = None"
  unfolding main_cifar10_def Let_def
  by (auto simp: stage_writes make_dir_ok simp del: run_steps.simps
        split: sum.split prod.split option.split)

lemma symmetric_args_file:
  "writes_to (save_dir a @ ''/args.txt'') (fst (main_symmetric env a)) \<longleftrightarrow>
     \<not> testing a \<and> (save_dir_exists env \<or> makedirs_error env = None) \<and> open_error env = None"
  unfolding main_symmetric_def Let_def
  by (auto simp: stage_writes make_dir_ok simp del: run_steps.simps
        dest: load_symmetric_prints
        split: sum.split prod.split option.split)

lemma args_write_reached:
  assumes "\<not> testing a" "save_dir_exists env \<or> makedirs_error env = None" "open_error env = None"
  shows "WriteFile (save_dir a @ ''/args.txt'') (ArgsDump a)
           \<in> set (fst (run_steps (make_dir env a # save_args env a # steps)))"
  using assms by (auto simp: fst_run_steps_Cons make_dir_def save_args_def)

text \<open>
  Claim C10.  In both entry points the trace of \<^verbatim>\<open>main\<close> holds a write to
  \<^verbatim>\<open>save_dir/args.txt\<close> exactly when \<open>testing\<close> is false (fool mode of capsnet.py
  included) and neither the creation of the directory nor the opening of the file raises;
  the write is then the dump of the arguments.  When \<open>testing\<close> is true no write of the
  run, those of \<^verbatim>\<open>test\<close> and \<^verbatim>\<open>manipulate_latent\<close> included, goes to that path: the
  file is after the run what it was before.
\<close>

theorem args_file_written_iff_not_testing:
  "(writes_to (save_dir a @ ''/args.txt'') (fst (main_cifar10 env a)) \<longleftrightarrow>
      \<not> testing a \<and> (save_dir_exists env \<or> makedirs_error env = None) \<and> open_error env = None)
   \<and> (writes_to (save_dir a @ ''/args.txt'') (fst (main_symmetric env a)) \<longleftrightarrow>
      \<not> testing a \<and> (save_dir_exists env \<or> makedirs_error env = None) \<and> open_error env = None)
   \<and> (\<not> testing a \<and> (save_dir_exists env \<or> makedirs_error env = None) \<and> open_error env = None
        \<longrightarrow>
        WriteFile (save_dir a @ ''/args.txt'') (ArgsDump a) \<in> set (fst (main_cifar10 env a))
        \<and> WriteFile (save_dir a @ ''/args.txt'') (ArgsDump a) \<in> set (fst (main_symmetric env a)))
   \<and> (testing a \<longrightarrow>
        run_files (fst (main_cifar10 env a)) fs (save_dir a @ ''/args.txt'')
          = fs (save_dir a @ ''/args.txt'')
        \<and> run_files (fst (main_symmetric env a)) fs (save_dir a @ ''/args.txt'')
          = fs (save_dir a @ ''/args.txt''))"
proof -
  have w: "WriteFile (save_dir a @ ''/args.txt'') (ArgsDump a) \<in> set (fst (main_cifar10 env a))
        \<and> WriteFile (save_dir a @ ''/args.txt'') (ArgsDump a) \<in> set (fst (main_symmetric env a))"
    if "\<not> testing a \<and> (save_dir_exists env \<or> makedirs_error env = None) \<and> open_error env = None"
    using that args_write_reached [of a env] by (simp add: main_cifar10_def main_symmetric_def)
  have f: "run_files (fst (main_cifar10 env a)) fs (save_dir a @ ''/args.txt'')
          = fs (save_dir a @ ''/args.txt'')
        \<and> run_files (fst (main_symmetric env a)) fs (save_dir a @ ''/args.txt'')
          = fs (save_dir a @ ''/args.txt'')"
    if "testing a"
    using that cifar10_args_file [of a env] symmetric_args_file [of a env]
      run_files_unchanged [of "save_dir a @ ''/args.txt''" "fst (main_cifar10 env a)" fs]
      run_files_unchanged [of "save_dir a @ ''/args.txt''" "fst (main_symmetric env a)" fs]
    by blast
  show ?thesis
    using cifar10_args_file [of a env] symmetric_args_file [of a env] w f by blast
qed

lemma concat_replicate_replicate: "concat (replicate n (replicate h x)) = replicate (n * h) x"
  by (induction n) (simp_all add: replicate_add)

lemma length_concat_replicate: "length (concat (replicate n xs)) = n * length xs"
  by (induction n) simp_all

lemma black_pixels: "length (flat_pixels (black_images n h w)) = n * h * w * 3"
  by (simp add: flat_pixels_def black_images_def concat_replicate_replicate
        length_concat_replicate)

lemma length_black_images: "length (black_images n h w) = n"
  by (simp add: black_images_def)

lemma np_reshape_multiple:
  "length (flat_pixels xs) mod (h * w * c) = 0 \<Longrightarrow>
     np_reshape h w c xs = Inr (regroup h w c (flat_pixels xs))"
  by (simp add: np_reshape_def)

lemma black_reshape:
  "np_reshape h w 3 (black_images n h w) = Inr (regroup h w 3 (flat_pixels (black_images n h w)))"
  by (rule np_reshape_multiple) (simp add: black_pixels)

lemma demo_load:
  "load_dataset none_of_the_above_class demo_raw =
     Inr ((scale_pixels (regroup 32 32 3 (flat_pixels (black_images 2 32 32))), [one_hot 11 0, one_hot 11 1]),
          (scale_pixels (regroup 32 32 3 (flat_pixels (black_images 1 32 32))), [one_hot 11 1]), 11)"
  by (simp add: load_dataset_def none_of_the_above_class_def to_categorical_def demo_raw_def
        black_reshape)



lemma demo_load_symmetric:
  "load_dataset_symmetric demo_symmetric_raw =
     ([Print (LoadedTrainingExamples 2), Print (LoadedTestExamples 1)],
      Inr ((scale_pixels (regroup 28 28 3 (flat_pixels (black_images 2 28 28))), [[1, 0], [0, 1]]),
           (scale_pixels (regroup 28 28 3 (flat_pixels (black_images 1 28 28))), [[0, 1]])))"
  by (simp add: load_dataset_symmetric_def to_categorical_def demo_symmetric_raw_def
        one_hot_def upt_rec black_reshape length_black_images)


text \<open>
  Claim C6 at the failing input: symmetric\_forms/main.py in test mode, with a weights
  path whose file does not exist.  The run loads nothing, prints no warning and goes on
  with the initial weights; capsnet.py prints the warning on the same input.
\<close>

theorem symmetric_missing_weights_trace:
  "fst (main_symmetric demo_symmetric_env
          (symmetric_defaults\<lparr>testing := True, weights := Some ''missing.hdf5''\<rparr>)) =
     [Print (LoadedTrainingExamples 2), Print (LoadedTestExamples 1),
      CreateCapsnet (FullShape [28, 28, 3]) 2 3 3, ModelSummary,
      Print BannerTest, ShowPrimaryLayer, Print BannerEnd]
   \<and> snd (main_symmetric demo_symmetric_env
          (symmetric_defaults\<lparr>testing := True, weights := Some ''missing.hdf5''\<rparr>)) = None
   \<and> Print WarnNoWeights
       \<in> set (fst (main_cifar10 demo_run_env
                 (cifar10_defaults\<lparr>testing := True, weights := Some ''missing.hdf5''\<rparr>)))"
  by (simp add: main_symmetric_def main_cifar10_def demo_run_env_def demo_symmetric_env_def
        demo_load_symmetric demo_load np_argmax_def symmetric_defaults_def
        cifar10_defaults_def Let_def fst_run_steps_Cons snd_run_steps_Cons make_dir_def
        save_args_def create_model_def load_weights_def test_stage_def manipulate_stage_def)

text \<open>
  Claim C7 at the failing input: without the option, symmetric\_forms/main.py weighs the
  reconstruction loss by 1; capsnet.py weighs it by 0.0005.
\<close>

theorem symmetric_default_loss_weight:
  "scale_reconstruction_loss symmetric_defaults = 1
   \<and> loss_weights symmetric_defaults = [1, 1]
   \<and> total_loss symmetric_defaults margin reconstruction = margin + reconstruction
   \<and> scale_reconstruction_loss cifar10_defaults = 5 / 10000
   \<and> loss_weights cifar10_defaults = [1, 5 / 10000]"
  by (simp add: symmetric_defaults_def cifar10_defaults_def loss_weights_def total_loss_def)

lemma length_one_hot: "length (one_hot n l) = n"
  by (simp add: one_hot_def)

lemma one_hot_nth: "j < n \<Longrightarrow> one_hot n l ! j = (if j = l then 1 else 0)"
  by (simp add: one_hot_def)

lemma to_categorical_rows:
  assumes "\<forall>l\<in>set y. l < n" "0 < n"
  shows "to_categorical y (Some n) = Inr (map (one_hot n) y)"
  using assms by (auto simp: to_categorical_def)

text \<open>
  Claim C9.  With \<open>none_of_the_above_class = 1\<close>, labels in \<open>0..9\<close> and whole images of
  32 x 32 x 3 bytes, \<^verbatim>\<open>load_dataset\<close> returns \<open>n_class = 11\<close> and one label row per sample, of width 11,
  with a one at the label's index and a zero at index 10, in both splits.
\<close>

theorem none_of_the_above_unused:
  assumes "\<forall>l\<in>set (train_labels r). l < 10" and "\<forall>l\<in>set (test_labels r). l < 10"
    and "length (flat_pixels (train_images r)) mod (32 * 32 * 3) = 0"
    and "length (flat_pixels (test_images r)) mod (32 * 32 * 3) = 0"
  shows "\<exists>x_train y_train x_te y_te.
           load_dataset none_of_the_above_class r = Inr ((x_train, y_train), (x_te, y_te), 11)
         \<and> length y_train = length (train_labels r) \<and> length y_te = length (test_labels r)
         \<and> (\<forall>row\<in>set y_train \<union> set y_te. length row = 11 \<and> row ! 10 = 0)
         \<and> (\<forall>i<length y_train. y_train ! i ! (train_labels r ! i) = 1)
         \<and> (\<forall>i<length y_te. y_te ! i ! (test_labels r ! i) = 1)"
proof -
  have a: "\<forall>l\<in>set (train_labels r). l < 11" using assms(1) by auto
  have b: "\<forall>l\<in>set (test_labels r). l < 11" using assms(2) by auto
  have l: "load_dataset none_of_the_above_class r =
             Inr ((scale_pixels (regroup 32 32 3 (flat_pixels (train_images r))),
                   map (one_hot 11) (train_labels r)),
                  (scale_pixels (regroup 32 32 3 (flat_pixels (test_images r))),
                   map (one_hot 11) (test_labels r)), 11)"
    by (simp add: load_dataset_def none_of_the_above_class_def
          np_reshape_multiple [OF assms(3)] np_reshape_multiple [OF assms(4)]
          to_categorical_rows [OF a] to_categorical_rows [OF b])
  have z: "one_hot 11 k ! 10 = 0" if "k < 10" for k
    using that by (simp add: one_hot_nth)
  have rows: "\<forall>row\<in>set (map (one_hot 11) (train_labels r)) \<union> set (map (one_hot 11) (test_labels r)).
                length row = 11 \<and> row ! 10 = 0"
    using assms(1,2) z by (auto simp: length_one_hot)
  have t1: "\<forall>i<length (map (one_hot 11) (train_labels r)).
              map (one_hot 11) (train_labels r) ! i ! (train_labels r ! i) = 1"
    using a by (simp add: one_hot_nth)
  have t2: "\<forall>i<length (map (one_hot 11) (test_labels r)).
              map (one_hot 11) (test_labels r) ! i ! (test_labels r ! i) = 1"
    using b by (simp add: one_hot_nth)
  show ?thesis
    using l rows t1 t2 by (intro exI conjI) (assumption | simp)+
qed

text \<open>
  C9 on a data set of two training samples and one test sample.
\<close>

theorem none_of_the_above_unused_witness:
  "list_all (\<lambda>l. l < 10) (train_labels demo_raw)
   \<and> list_all (\<lambda>l. l < 10) (test_labels demo_raw)
   \<and> length (flat_pixels (train_images demo_raw)) mod (32 * 32 * 3) = 0
   \<and> length (flat_pixels (test_images demo_raw)) mod (32 * 32 * 3) = 0
   \<and> (\<exists>x_train y_train x_te y_te.
           load_dataset none_of_the_above_class demo_raw
             = Inr ((x_train, y_train), (x_te, y_te), 11)
         \<and> length y_train = length (train_labels demo_raw)
         \<and> length y_te = length (test_labels demo_raw)
         \<and> (\<forall>row\<in>set y_train \<union> set y_te. length row = 11 \<and> row ! 10 = 0)
         \<and> (\<forall>i<length y_train. y_train ! i ! (train_labels demo_raw ! i) = 1)
         \<and> (\<forall>i<length y_te. y_te ! i ! (test_labels demo_raw ! i) = 1))"
proof -
  have h1: "\<forall>l\<in>set (train_labels demo_raw). l < 10"
    and h2: "\<forall>l\<in>set (test_labels demo_raw). l < 10"
    by (simp_all add: demo_raw_def)
  have p1: "length (flat_pixels (train_images demo_raw)) mod (32 * 32 * 3) = 0"
    and p2: "length (flat_pixels (test_images demo_raw)) mod (32 * 32 * 3) = 0"
    by (simp_all add: demo_raw_def black_pixels)
  have l1: "list_all (\<lambda>l. l < 10) (train_labels demo_raw)"
    and l2: "list_all (\<lambda>l. l < 10) (test_labels demo_raw)"
    by (simp_all add: demo_raw_def)
  note c = none_of_the_above_unused [OF h1 h2 p1 p2]
  show ?thesis
    by (intro conjI) (rule l1 l2 p1 p2 c)+
qed

text \<open>
  C10 on the default arguments of capsnet.py, in training and in test mode.
\<close>

theorem args_file_written_iff_not_testing_witness:
  "\<not> testing cifar10_defaults
   \<and> save_dir_exists demo_run_env \<and> open_error demo_run_env = None
   \<and> WriteFile ''./result-capsnet/args.txt'' (ArgsDump cifar10_defaults)
       \<in> set (fst (main_cifar10 demo_run_env cifar10_defaults))
   \<and> testing (cifar10_defaults\<lparr>testing := True\<rparr>)
   \<and> run_files (fst (main_cifar10 demo_run_env (cifar10_defaults\<lparr>testing := True\<rparr>)))
        Map.empty ''./result-capsnet/args.txt'' = None"
  using args_file_written_iff_not_testing [of cifar10_defaults demo_run_env Map.empty]
    args_file_written_iff_not_testing [of "cifar10_defaults\<lparr>testing := True\<rparr>" demo_run_env
      Map.empty]
  by (simp add: cifar10_defaults_def demo_run_env_def)

end
